theory Spec2Isabelle
  imports Complex_Main "HOL-Library.Log_Nat"
begin

section \<open>The interactive diamond: data model\<close>

text \<open>
  The component \<open>InteractiveDiamond\<close> keeps four React state cells,
  \<open>valuePosition\<close>, \<open>directionPosition\<close>, \<open>exchangePosition\<close> and
  \<open>operatePosition\<close>. Every write to them stores an integer: the initial
  \<open>useState(0)\<close>, the sliders' \<open>parseInt(e.target.value, 10)\<close>, the reset to
  \<open>0\<close> and the stress test's \<open>Math.floor(...) - 50\<close>. The cells are therefore
  integers here. Everything computed from them is a JavaScript number and may be a
  half (\<open>exchangePosition / 2\<close>), so derived quantities are rationals; on integers
  of slider magnitude the double arithmetic of the source is exact. The one place where
  a double operation rounds is the product \<open>Math.random() * 101\<close> of the stress
  test, and there the rounding is part of the model.
\<close>

record BalanceState =
  valuePosition :: int
  directionPosition :: int
  exchangePosition :: int
  operatePosition :: int

text \<open>A point \<open>{ x, y }\<close> of the 800 by 600 canvas.\<close>

record Point =
  px :: rat
  py :: rat

text \<open>
  The path strings of the source are SVG path data: one \<open>M x,y\<close> command followed by
  \<open>Q cx,cy x,y\<close> commands. The model keeps the commands and their numbers, in the
  order the template literal writes them.
\<close>

datatype PathCmd =
  MoveTo rat rat
  | QuadTo rat rat rat rat

definition inRange :: "BalanceState \<Rightarrow> bool" where
  "inRange s \<longleftrightarrow>
     - 50 \<le> valuePosition s \<and> valuePosition s \<le> 50 \<and>
     - 50 \<le> directionPosition s \<and> directionPosition s \<le> 50 \<and>
     - 50 \<le> exchangePosition s \<and> exchangePosition s \<le> 50 \<and>
     - 50 \<le> operatePosition s \<and> operatePosition s \<le> 50"

definition zeroState :: BalanceState where
  "zeroState = \<lparr>valuePosition = 0, directionPosition = 0,
                 exchangePosition = 0, operatePosition = 0\<rparr>"

section \<open>Geometry\<close>

definition topPoint :: "BalanceState \<Rightarrow> Point" where
  "topPoint s = \<lparr>px = 400 + of_int (valuePosition s) * 2, py = 120\<rparr>"

definition rightPoint :: "BalanceState \<Rightarrow> Point" where
  "rightPoint s = \<lparr>px = 580 + of_int (exchangePosition s),
                    py = 300 + of_int (exchangePosition s) / 2\<rparr>"

definition bottomPoint :: "BalanceState \<Rightarrow> Point" where
  "bottomPoint s = \<lparr>px = 400 + of_int (operatePosition s) * 2, py = 480\<rparr>"

definition leftPoint :: "BalanceState \<Rightarrow> Point" where
  "leftPoint s = \<lparr>px = 220 + of_int (directionPosition s),
                   py = 300 + of_int (directionPosition s) / 2\<rparr>"

definition diamondPath :: "BalanceState \<Rightarrow> PathCmd list" where
  "diamondPath s =
     [MoveTo (px (topPoint s)) (py (topPoint s)),
      QuadTo (px (topPoint s) + 15) ((py (topPoint s) + py (rightPoint s)) / 2)
             (px (rightPoint s)) (py (rightPoint s)),
      QuadTo ((px (rightPoint s) + px (bottomPoint s)) / 2) (py (rightPoint s) + 50)
             (px (bottomPoint s)) (py (bottomPoint s)),
      QuadTo (px (bottomPoint s) - 30) ((py (bottomPoint s) + py (leftPoint s)) / 2)
             (px (leftPoint s)) (py (leftPoint s)),
      QuadTo ((px (leftPoint s) + px (topPoint s)) / 2) (py (leftPoint s) - 50)
             (px (topPoint s)) (py (topPoint s))]"

definition idealDiamondPath :: "PathCmd list" where
  "idealDiamondPath =
     [MoveTo 400 120,
      QuadTo 415 210 580 300,
      QuadTo 490 350 400 480,
      QuadTo 310 350 220 300,
      QuadTo 385 210 400 120]"

text \<open>Reading a path: where each command ends, and the control point of a curve.\<close>

fun endPoint :: "PathCmd \<Rightarrow> Point" where
  "endPoint (MoveTo a b) = \<lparr>px = a, py = b\<rparr>"
| "endPoint (QuadTo c d a b) = \<lparr>px = a, py = b\<rparr>"

fun controlPoint :: "PathCmd \<Rightarrow> Point option" where
  "controlPoint (MoveTo a b) = None"
| "controlPoint (QuadTo c d a b) = Some \<lparr>px = c, py = d\<rparr>"

section \<open>Scoring\<close>

definition calculateHealth :: "BalanceState \<Rightarrow> rat" where
  "calculateHealth s =
     (let balanceScore = 100 - of_int (\<bar>valuePosition s\<bar> +
                                       \<bar>directionPosition s\<bar> +
                                       \<bar>exchangePosition s\<bar> +
                                       \<bar>operatePosition s\<bar>) / 2
      in max 0 balanceScore)"

text \<open>
  \<open>getHealthDescription\<close> reads \<open>const health = calculateHealth()\<close> and then
  branches on \<open>health\<close> alone; \<open>healthDescriptionFor\<close> is that branching.
\<close>

definition healthDescriptionFor :: "rat \<Rightarrow> string" where
  "healthDescriptionFor health =
     (if health \<ge> 80 then
        ''Excellent structural integrity! The architecture is aligned and positioned for growth.''
      else if health \<ge> 60 then
        ''Good integrity. Minor adjustments could improve commercial effectiveness.''
      else if health \<ge> 40 then
        ''Moderate structural weaknesses. Organization experiencing tension in key areas.''
      else if health \<ge> 20 then
        ''Significant structural issues. Organization likely experiencing dysfunction.''
      else ''Critical structural failure. Organization at risk of collapse.'')"

definition getHealthDescription :: "BalanceState \<Rightarrow> string" where
  "getHealthDescription s = (let health = calculateHealth s in healthDescriptionFor health)"

text \<open>The sum of absolute deviations of the four positions from 0.\<close>

definition absDeviation :: "BalanceState \<Rightarrow> int" where
  "absDeviation s = \<bar>valuePosition s\<bar> + \<bar>directionPosition s\<bar> +
                    \<bar>exchangePosition s\<bar> + \<bar>operatePosition s\<bar>"

section \<open>Effect descriptions\<close>

definition getValueEffect :: "BalanceState \<Rightarrow> string" where
  "getValueEffect s =
     (if valuePosition s < - 30 then
        ''Heavy Wall Street focus. Investors happy but customers may feel neglected.''
      else if valuePosition s > 30 then
        ''Strong customer value focus, but Wall Street may not understand strategy.''
      else ''Balanced value proposition between investor and customer needs.'')"

definition getDirectionEffect :: "BalanceState \<Rightarrow> string" where
  "getDirectionEffect s =
     (if directionPosition s < - 30 then
        ''Strategy too investor-focused. Employee engagement suffering.''
      else if directionPosition s > 30 then
        ''Employee-driven strategy may lack market alignment.''
      else ''Strategic alignment balances investor expectations and employee capabilities.'')"

definition getExchangeEffect :: "BalanceState \<Rightarrow> string" where
  "getExchangeEffect s =
     (if exchangePosition s < - 30 then
        ''Customer focus without market context. May miss emerging trends.''
      else if exchangePosition s > 30 then
        ''Market-driven but not addressing specific customer needs.''
      else ''Value exchange optimized between customer needs and market conditions.'')"

definition getOperateEffect :: "BalanceState \<Rightarrow> string" where
  "getOperateEffect s =
     (if operatePosition s < - 30 then
        ''Operating model too employee-centric, disconnected from market realities.''
      else if operatePosition s > 30 then
        ''Market-driven operations without employee engagement.''
      else ''Operating model aligns employee capabilities with market dynamics.'')"

section \<open>The balance point table\<close>

text \<open>
  The table of \<open>data/balancePoints.ts\<close>. The key type is the union of the four
  string literals. The stakeholder strings hold the character U+2194 (left right
  arrow), written here as its three UTF-8 bytes.
\<close>

datatype BalanceKey = KeyValue | KeyDirection | KeyExchange | KeyOperate

record Effects =
  low :: string
  high :: string
  balanced :: string

record BalancePoint =
  key :: BalanceKey
  label :: string
  stakeholders :: string
  description :: string
  effects :: Effects

definition leftRightArrow :: string where
  "leftRightArrow = [CHR 0xE2, CHR 0x86, CHR 0x94]"

definition balancePoints :: "BalancePoint list" where
  "balancePoints =
     [\<lparr>key = KeyValue,
       label = ''VALUE'',
       stakeholders = ''Wall Street '' @ leftRightArrow @ '' Customers'',
       description = ''Balance between investor expectations and customer needs.'',
       effects = \<lparr>
         low = ''Heavy Wall Street focus. Investors happy but customers may feel neglected.'',
         high = ''Strong customer value focus, but Wall Street may not understand strategy.'',
         balanced = ''Balanced value proposition between investor and customer needs.''\<rparr>\<rparr>,
      \<lparr>key = KeyDirection,
       label = ''DIRECTION'',
       stakeholders = ''Wall Street '' @ leftRightArrow @ '' Employees'',
       description = ''Alignment of strategic direction between investors and employees.'',
       effects = \<lparr>
         low = ''Strategy too investor-focused. Employee engagement suffering.'',
         high = ''Employee-driven strategy may lack market alignment.'',
         balanced = ''Strategic alignment balances investor expectations and employee capabilities.''\<rparr>\<rparr>,
      \<lparr>key = KeyExchange,
       label = ''EXCHANGE'',
       stakeholders = ''Customers '' @ leftRightArrow @ '' Market'',
       description = ''Balance between customer focus and market trends.'',
       effects = \<lparr>
         low = ''Customer focus without market context. May miss emerging trends.'',
         high = ''Market-driven but not addressing specific customer needs.'',
         balanced = ''Value exchange optimized between customer needs and market conditions.''\<rparr>\<rparr>,
      \<lparr>key = KeyOperate,
       label = ''OPERATE'',
       stakeholders = ''Employees '' @ leftRightArrow @ '' Market'',
       description = ''How operational capabilities align employees with market dynamics.'',
       effects = \<lparr>
         low = ''Operating model too employee-centric, disconnected from market realities.'',
         high = ''Market-driven operations without employee engagement.'',
         balanced = ''Operating model aligns employee capabilities with market dynamics.''\<rparr>\<rparr>]"

text \<open>
  The data-driven reading of the effect text, as the specification words it: one
  generic band classifier with thresholds at 30 on either side, and a lookup of the
  band's string in the record of the table that carries the field's key.
\<close>

datatype Band = LowBand | BalancedBand | HighBand

definition classifyBand :: "int \<Rightarrow> Band" where
  "classifyBand v = (if v < - 30 then LowBand else if v > 30 then HighBand else BalancedBand)"

fun bandText :: "Effects \<Rightarrow> Band \<Rightarrow> string" where
  "bandText e LowBand = low e"
| "bandText e HighBand = high e"
| "bandText e BalancedBand = balanced e"

definition tableEffect :: "BalanceKey \<Rightarrow> int \<Rightarrow> string option" where
  "tableEffect k v =
     map_option (\<lambda>p. bandText (effects p) (classifyBand v))
       (find (\<lambda>p. key p = k) balancePoints)"

section \<open>Double arithmetic\<close>

text \<open>
  JavaScript numbers are IEEE 754 doubles: 53 significant bits, results rounded to the
  nearest double, ties to the even significand. A double is a rational; an operation
  is the exact operation followed by \<open>roundToDouble\<close>.

  \<open>expo x\<close> is the binary exponent of a positive \<open>x\<close>: the \<open>e\<close> with
  \<open>2^e \<le> x < 2^(e+1)\<close>. \<open>ulp x\<close> is the spacing of the doubles around \<open>x\<close>,
  \<open>2^(e-52)\<close>, and never less than the subnormal spacing \<open>2^(-1074)\<close>.
  Overflow to Infinity (magnitudes from \<open>2^1024\<close> on) is not modelled: every number
  rounded here is below 128 in magnitude.
\<close>

definition expo :: "rat \<Rightarrow> int" where
  "expo x = (if 1 \<le> x then bitlen \<lfloor>x\<rfloor> - 1 else - bitlen (\<lceil>1 / x\<rceil> - 1))"

definition ulp :: "rat \<Rightarrow> rat" where
  "ulp x = 2 powi (max (expo \<bar>x\<bar> - 52) (- 1074))"

definition roundTiesToEven :: "rat \<Rightarrow> int" where
  "roundTiesToEven q =
     (let n = \<lfloor>q\<rfloor>; f = q - of_int n
      in if f < 1 / 2 then n else if 1 / 2 < f then n + 1
         else if even n then n else n + 1)"

definition roundToDouble :: "rat \<Rightarrow> rat" where
  "roundToDouble x = (if x = 0 then 0 else of_int (roundTiesToEven (x / ulp x)) * ulp x)"

definition isDouble :: "rat \<Rightarrow> bool" where
  "isDouble x \<longleftrightarrow> roundToDouble x = x"

definition doubleMul :: "rat \<Rightarrow> rat \<Rightarrow> rat" where
  "doubleMul a b = roundToDouble (a * b)"

definition doubleSub :: "rat \<Rightarrow> rat \<Rightarrow> rat" where
  "doubleSub a b = roundToDouble (a - b)"

section \<open>The stress test\<close>

text \<open>
  The handler of the Stress Test button calls \<open>Math.random()\<close> four times and stores
  \<open>Math.floor(Math.random() * 101) - 50\<close> in each cell. \<open>Math.random()\<close> returns a
  double that is at least 0 and less than 1; the four draws are the arguments
  \<open>r1\<close> to \<open>r4\<close>, in the order of the calls. The product is a double
  multiplication. \<open>Math.floor\<close> is exact, and so is the subtraction of 50 from its
  integer result.
\<close>

definition stressTest :: "rat \<Rightarrow> rat \<Rightarrow> rat \<Rightarrow> rat \<Rightarrow> BalanceState \<Rightarrow> BalanceState" where
  "stressTest r1 r2 r3 r4 s =
     s\<lparr>valuePosition := \<lfloor>doubleMul r1 101\<rfloor> - 50,
       directionPosition := \<lfloor>doubleMul r2 101\<rfloor> - 50,
       exchangePosition := \<lfloor>doubleMul r3 101\<rfloor> - 50,
       operatePosition := \<lfloor>doubleMul r4 101\<rfloor> - 50\<rparr>"

text \<open>
  The listing of the component in the developer documentation has another handler:
  \<open>Math.floor(Math.random() * 100 - 50)\<close>, a double multiplication and a double
  subtraction under the floor.
\<close>

definition stressTestListing :: "rat \<Rightarrow> rat \<Rightarrow> rat \<Rightarrow> rat \<Rightarrow> BalanceState \<Rightarrow> BalanceState" where
  "stressTestListing r1 r2 r3 r4 s =
     s\<lparr>valuePosition := \<lfloor>doubleSub (doubleMul r1 100) 50\<rfloor>,
       directionPosition := \<lfloor>doubleSub (doubleMul r2 100) 50\<rfloor>,
       exchangePosition := \<lfloor>doubleSub (doubleMul r3 100) 50\<rfloor>,
       operatePosition := \<lfloor>doubleSub (doubleMul r4 100) 50\<rfloor>\<rparr>"

text \<open>The handler of the Ideal Form button.\<close>

definition idealForm :: "BalanceState \<Rightarrow> BalanceState" where
  "idealForm s =
     s\<lparr>valuePosition := 0, directionPosition := 0,
       exchangePosition := 0, operatePosition := 0\<rparr>"

section \<open>Geometry: results\<close>

text \<open>
  Claim C3. For every balance state the four vertices are
  top = (400 + 2 * value, 120), right = (580 + exchange, 300 + exchange / 2),
  bottom = (400 + 2 * operate, 480) and left = (220 + direction, 300 + direction / 2).
  The all-zero state gives (400,120), (580,300), (400,480), (220,300), and the state
  with value 40 and the rest 0 has its top vertex at (480,120).
\<close>

theorem vertices_formula:
  "topPoint s = \<lparr>px = 400 + 2 * of_int (valuePosition s), py = 120\<rparr>
   \<and> rightPoint s = \<lparr>px = 580 + of_int (exchangePosition s),
                      py = 300 + of_int (exchangePosition s) / 2\<rparr>
   \<and> bottomPoint s = \<lparr>px = 400 + 2 * of_int (operatePosition s), py = 480\<rparr>
   \<and> leftPoint s = \<lparr>px = 220 + of_int (directionPosition s),
                     py = 300 + of_int (directionPosition s) / 2\<rparr>
   \<and> topPoint zeroState = \<lparr>px = 400, py = 120\<rparr>
   \<and> rightPoint zeroState = \<lparr>px = 580, py = 300\<rparr>
   \<and> bottomPoint zeroState = \<lparr>px = 400, py = 480\<rparr>
   \<and> leftPoint zeroState = \<lparr>px = 220, py = 300\<rparr>
   \<and> topPoint \<lparr>valuePosition = 40, directionPosition = 0,
                 exchangePosition = 0, operatePosition = 0\<rparr> = \<lparr>px = 480, py = 120\<rparr>"
  by (simp add: topPoint_def rightPoint_def bottomPoint_def leftPoint_def zeroState_def)

text \<open>
  Claim C4. For every balance state the dynamic path is one closed loop: it starts at
  the top vertex and its four quadratic segments end at right, bottom, left and top
  again, in that order. The control points are
  (top.x + 15, (top.y + right.y) / 2) for top to right,
  ((right.x + bottom.x) / 2, right.y + 50) for right to bottom,
  (bottom.x - 30, (bottom.y + left.y) / 2) for bottom to left and
  ((left.x + top.x) / 2, left.y - 50) for left to top.
\<close>

theorem diamondPath_closed_loop:
  "length (diamondPath s) = 5
   \<and> map endPoint (diamondPath s)
       = [topPoint s, rightPoint s, bottomPoint s, leftPoint s, topPoint s]
   \<and> map controlPoint (diamondPath s)
       = [None,
          Some \<lparr>px = px (topPoint s) + 15,
                py = (py (topPoint s) + py (rightPoint s)) / 2\<rparr>,
          Some \<lparr>px = (px (rightPoint s) + px (bottomPoint s)) / 2,
                py = py (rightPoint s) + 50\<rparr>,
          Some \<lparr>px = px (bottomPoint s) - 30,
                py = (py (bottomPoint s) + py (leftPoint s)) / 2\<rparr>,
          Some \<lparr>px = (px (leftPoint s) + px (topPoint s)) / 2,
                py = py (leftPoint s) - 50\<rparr>]
   \<and> endPoint (last (diamondPath s)) = endPoint (hd (diamondPath s))"
  by (simp add: diamondPath_def)

text \<open>
  Claim C1. The stored ideal path is claimed to be the dynamic path of the all-zero
  state. Evaluated, the two agree on the starting point, on the end point of every
  segment and on the control points of the first two segments, and they differ on the
  control points of the last two: the dynamic path of the all-zero state bends
  bottom to left at (370,390) and left to top at (310,250), the stored ideal path at
  (310,350) and (385,210).
\<close>

theorem ideal_path_differs_from_zero_state_path:
  "diamondPath zeroState
     = [MoveTo 400 120,
        QuadTo 415 210 580 300,
        QuadTo 490 350 400 480,
        QuadTo 370 390 220 300,
        QuadTo 310 250 400 120]
   \<and> diamondPath zeroState \<noteq> idealDiamondPath
   \<and> map endPoint (diamondPath zeroState) = map endPoint idealDiamondPath
   \<and> take 3 (diamondPath zeroState) = take 3 idealDiamondPath
   \<and> controlPoint (diamondPath zeroState ! 3) = Some \<lparr>px = 370, py = 390\<rparr>
   \<and> controlPoint (idealDiamondPath ! 3) = Some \<lparr>px = 310, py = 350\<rparr>
   \<and> controlPoint (diamondPath zeroState ! 4) = Some \<lparr>px = 310, py = 250\<rparr>
   \<and> controlPoint (idealDiamondPath ! 4) = Some \<lparr>px = 385, py = 210\<rparr>"
  by (simp add: diamondPath_def idealDiamondPath_def zeroState_def
      topPoint_def rightPoint_def bottomPoint_def leftPoint_def)

section \<open>Scoring: results\<close>

text \<open>
  Claim C2. For every balance state whose four positions lie between -50 and 50, the
  integrity computation returns max(0, 100 - (|value| + |direction| + |exchange| +
  |operate|) / 2); it returns 100 on the all-zero state and 0 on the state with all
  four positions at 50.
\<close>

theorem calculateHealth_formula:
  assumes "inRange s"
  shows "calculateHealth s
           = max 0 (100 - (of_int \<bar>valuePosition s\<bar> + of_int \<bar>directionPosition s\<bar>
                           + of_int \<bar>exchangePosition s\<bar> + of_int \<bar>operatePosition s\<bar>) / 2)
         \<and> calculateHealth zeroState = 100
         \<and> calculateHealth \<lparr>valuePosition = 50, directionPosition = 50,
                             exchangePosition = 50, operatePosition = 50\<rparr> = 0"
  by (simp add: calculateHealth_def zeroState_def)

theorem calculateHealth_formula_witness:
  "inRange \<lparr>valuePosition = - 50, directionPosition = 0,
            exchangePosition = 0, operatePosition = 0\<rparr>
   \<and> calculateHealth \<lparr>valuePosition = - 50, directionPosition = 0,
                       exchangePosition = 0, operatePosition = 0\<rparr> = 75"
proof -
  have r: "inRange \<lparr>valuePosition = - 50, directionPosition = 0,
                    exchangePosition = 0, operatePosition = 0\<rparr>"
    by (simp add: inRange_def)
  show ?thesis using r calculateHealth_formula [OF r] by simp
qed

text \<open>
  Claim C7. For every balance state whose four positions lie between -50 and 50, the
  integrity score is at least 0 and at most 100.
\<close>

theorem calculateHealth_bounds:
  assumes "inRange s"
  shows "0 \<le> calculateHealth s \<and> calculateHealth s \<le> 100"
  by (simp add: calculateHealth_def)

theorem calculateHealth_bounds_witness:
  "inRange \<lparr>valuePosition = 50, directionPosition = - 50,
            exchangePosition = 50, operatePosition = - 50\<rparr>
   \<and> 0 \<le> calculateHealth \<lparr>valuePosition = 50, directionPosition = - 50,
                           exchangePosition = 50, operatePosition = - 50\<rparr>
   \<and> calculateHealth \<lparr>valuePosition = 50, directionPosition = - 50,
                       exchangePosition = 50, operatePosition = - 50\<rparr> \<le> 100"
proof -
  have r: "inRange \<lparr>valuePosition = 50, directionPosition = - 50,
                    exchangePosition = 50, operatePosition = - 50\<rparr>"
    by (simp add: inRange_def)
  show ?thesis using r calculateHealth_bounds [OF r] by simp
qed

lemma calculateHealth_absDeviation:
  "calculateHealth s = max 0 (100 - of_int (absDeviation s) / 2)"
  by (simp add: calculateHealth_def absDeviation_def)

lemma absDeviation_zero_iff:
  "absDeviation s = 0 \<longleftrightarrow>
     valuePosition s = 0 \<and> directionPosition s = 0 \<and>
     exchangePosition s = 0 \<and> operatePosition s = 0"
  unfolding absDeviation_def by linarith

text \<open>
  Claim C8. The integrity score does not increase when the sum of absolute deviations
  grows: of two valid states, the one with the smaller or equal sum has the greater or
  equal score. The score is 100 exactly when all four positions are 0.
\<close>

theorem calculateHealth_antitone:
  "(inRange s \<and> inRange t \<and> absDeviation s \<le> absDeviation t
      \<longrightarrow> calculateHealth t \<le> calculateHealth s)
   \<and> (calculateHealth s = 100 \<longleftrightarrow>
        valuePosition s = 0 \<and> directionPosition s = 0 \<and>
        exchangePosition s = 0 \<and> operatePosition s = 0)"
proof (intro conjI impI)
  assume "inRange s \<and> inRange t \<and> absDeviation s \<le> absDeviation t"
  then have "(of_int (absDeviation s) :: rat) \<le> of_int (absDeviation t)"
    by simp
  then show "calculateHealth t \<le> calculateHealth s"
    unfolding calculateHealth_absDeviation by (simp add: max_def)
next
  have nonneg: "0 \<le> absDeviation s"
    by (simp add: absDeviation_def)
  have "calculateHealth s = 100 \<longleftrightarrow> absDeviation s = 0"
    unfolding calculateHealth_absDeviation using nonneg by (simp add: max_def)
  then show "calculateHealth s = 100 \<longleftrightarrow>
        valuePosition s = 0 \<and> directionPosition s = 0 \<and>
        exchangePosition s = 0 \<and> operatePosition s = 0"
    by (simp add: absDeviation_zero_iff)
qed

theorem calculateHealth_antitone_witness:
  "inRange \<lparr>valuePosition = 10, directionPosition = - 5,
            exchangePosition = 0, operatePosition = 0\<rparr>
   \<and> inRange \<lparr>valuePosition = - 20, directionPosition = 0,
              exchangePosition = 30, operatePosition = 1\<rparr>
   \<and> absDeviation \<lparr>valuePosition = 10, directionPosition = - 5,
                    exchangePosition = 0, operatePosition = 0\<rparr>
       \<le> absDeviation \<lparr>valuePosition = - 20, directionPosition = 0,
                        exchangePosition = 30, operatePosition = 1\<rparr>
   \<and> calculateHealth \<lparr>valuePosition = - 20, directionPosition = 0,
                       exchangePosition = 30, operatePosition = 1\<rparr>
       \<le> calculateHealth \<lparr>valuePosition = 10, directionPosition = - 5,
                           exchangePosition = 0, operatePosition = 0\<rparr>"
proof -
  have h: "inRange \<lparr>valuePosition = 10, directionPosition = - 5,
                    exchangePosition = 0, operatePosition = 0\<rparr>
           \<and> inRange \<lparr>valuePosition = - 20, directionPosition = 0,
                      exchangePosition = 30, operatePosition = 1\<rparr>
           \<and> absDeviation \<lparr>valuePosition = 10, directionPosition = - 5,
                            exchangePosition = 0, operatePosition = 0\<rparr>
               \<le> absDeviation \<lparr>valuePosition = - 20, directionPosition = 0,
                                exchangePosition = 30, operatePosition = 1\<rparr>"
    by (simp add: inRange_def absDeviation_def)
  from calculateHealth_antitone
    [of "\<lparr>valuePosition = 10, directionPosition = - 5,
          exchangePosition = 0, operatePosition = 0\<rparr>"
        "\<lparr>valuePosition = - 20, directionPosition = 0,
          exchangePosition = 30, operatePosition = 1\<rparr>"]
  have "calculateHealth \<lparr>valuePosition = - 20, directionPosition = 0,
                         exchangePosition = 30, operatePosition = 1\<rparr>
         \<le> calculateHealth \<lparr>valuePosition = 10, directionPosition = - 5,
                             exchangePosition = 0, operatePosition = 0\<rparr>"
    using h by blast
  with h show ?thesis by blast
qed

text \<open>
  Claim C6. For every score between 0 and 100 the health description is one of five
  texts, each tier closed at its lower edge: the excellent text from 80 to 100, the
  good text from 60 up to but not 80, the moderate text from 40 up to but not 60, the
  significant text from 20 up to but not 40, the critical text below 20. So 80 is
  excellent, 79 good, 20 significant and 19 critical.
\<close>

theorem health_tiers:
  assumes "0 \<le> h" and "h \<le> 100"
  shows "(healthDescriptionFor h
            = ''Excellent structural integrity! The architecture is aligned and positioned for growth.''
          \<longleftrightarrow> 80 \<le> h)
       \<and> (healthDescriptionFor h
            = ''Good integrity. Minor adjustments could improve commercial effectiveness.''
          \<longleftrightarrow> 60 \<le> h \<and> h < 80)
       \<and> (healthDescriptionFor h
            = ''Moderate structural weaknesses. Organization experiencing tension in key areas.''
          \<longleftrightarrow> 40 \<le> h \<and> h < 60)
       \<and> (healthDescriptionFor h
            = ''Significant structural issues. Organization likely experiencing dysfunction.''
          \<longleftrightarrow> 20 \<le> h \<and> h < 40)
       \<and> (healthDescriptionFor h
            = ''Critical structural failure. Organization at risk of collapse.''
          \<longleftrightarrow> h < 20)
       \<and> getHealthDescription s = healthDescriptionFor (calculateHealth s)"
  by (simp add: healthDescriptionFor_def getHealthDescription_def)

theorem health_tiers_witness:
  "(0::rat) \<le> 80 \<and> (80::rat) \<le> 100
   \<and> healthDescriptionFor 80
       = ''Excellent structural integrity! The architecture is aligned and positioned for growth.''
   \<and> (0::rat) \<le> 79 \<and> (79::rat) \<le> 100
   \<and> healthDescriptionFor 79
       = ''Good integrity. Minor adjustments could improve commercial effectiveness.''
   \<and> (0::rat) \<le> 20 \<and> (20::rat) \<le> 100
   \<and> healthDescriptionFor 20
       = ''Significant structural issues. Organization likely experiencing dysfunction.''
   \<and> (0::rat) \<le> 19 \<and> (19::rat) \<le> 100
   \<and> healthDescriptionFor 19
       = ''Critical structural failure. Organization at risk of collapse.''"
  using health_tiers [of 80] health_tiers [of 79] health_tiers [of 20] health_tiers [of 19]
  by simp

section \<open>Effect descriptions: results\<close>

text \<open>
  Claim C5. Each of the four effect functions returns its low text exactly when its
  position is below -30, its high text exactly when its position is above 30, and its
  balanced text otherwise, so that 30 and -30 are balanced while 31 is high and -31 is
  low. The result of each function depends on its own position only: changing the
  other three positions leaves it as it is.
\<close>

theorem effect_bands:
  "(getValueEffect s = ''Heavy Wall Street focus. Investors happy but customers may feel neglected.''
      \<longleftrightarrow> valuePosition s < - 30)
   \<and> (getValueEffect s = ''Strong customer value focus, but Wall Street may not understand strategy.''
      \<longleftrightarrow> valuePosition s > 30)
   \<and> (getValueEffect s = ''Balanced value proposition between investor and customer needs.''
      \<longleftrightarrow> - 30 \<le> valuePosition s \<and> valuePosition s \<le> 30)
   \<and> (getDirectionEffect s = ''Strategy too investor-focused. Employee engagement suffering.''
      \<longleftrightarrow> directionPosition s < - 30)
   \<and> (getDirectionEffect s = ''Employee-driven strategy may lack market alignment.''
      \<longleftrightarrow> directionPosition s > 30)
   \<and> (getDirectionEffect s = ''Strategic alignment balances investor expectations and employee capabilities.''
      \<longleftrightarrow> - 30 \<le> directionPosition s \<and> directionPosition s \<le> 30)
   \<and> (getExchangeEffect s = ''Customer focus without market context. May miss emerging trends.''
      \<longleftrightarrow> exchangePosition s < - 30)
   \<and> (getExchangeEffect s = ''Market-driven but not addressing specific customer needs.''
      \<longleftrightarrow> exchangePosition s > 30)
   \<and> (getExchangeEffect s = ''Value exchange optimized between customer needs and market conditions.''
      \<longleftrightarrow> - 30 \<le> exchangePosition s \<and> exchangePosition s \<le> 30)
   \<and> (getOperateEffect s = ''Operating model too employee-centric, disconnected from market realities.''
      \<longleftrightarrow> operatePosition s < - 30)
   \<and> (getOperateEffect s = ''Market-driven operations without employee engagement.''
      \<longleftrightarrow> operatePosition s > 30)
   \<and> (getOperateEffect s = ''Operating model aligns employee capabilities with market dynamics.''
      \<longleftrightarrow> - 30 \<le> operatePosition s \<and> operatePosition s \<le> 30)
   \<and> getValueEffect (s\<lparr>directionPosition := d, exchangePosition := e, operatePosition := f\<rparr>)
        = getValueEffect s
   \<and> getDirectionEffect (s\<lparr>valuePosition := d, exchangePosition := e, operatePosition := f\<rparr>)
        = getDirectionEffect s
   \<and> getExchangeEffect (s\<lparr>valuePosition := d, directionPosition := e, operatePosition := f\<rparr>)
        = getExchangeEffect s
   \<and> getOperateEffect (s\<lparr>valuePosition := d, directionPosition := e, exchangePosition := f\<rparr>)
        = getOperateEffect s"
  by (simp add: getValueEffect_def getDirectionEffect_def getExchangeEffect_def
      getOperateEffect_def)

text \<open>
  Claim C10. For every position and each of the four fields, the inline effect function
  returns the string that the balance point table stores for that field under the band
  of the position: the four functions agree with the generic band classifier composed
  with the table lookup.
\<close>

theorem effects_agree_with_table:
  "tableEffect KeyValue (valuePosition s) = Some (getValueEffect s)
   \<and> tableEffect KeyDirection (directionPosition s) = Some (getDirectionEffect s)
   \<and> tableEffect KeyExchange (exchangePosition s) = Some (getExchangeEffect s)
   \<and> tableEffect KeyOperate (operatePosition s) = Some (getOperateEffect s)"
  by (simp add: tableEffect_def balancePoints_def classifyBand_def
      getValueEffect_def getDirectionEffect_def getExchangeEffect_def getOperateEffect_def)

section \<open>Double arithmetic: rounding lemmas\<close>

text \<open>The exponent brackets its argument between two consecutive powers of 2.\<close>

lemma expo_bounds:
  assumes "0 < x"
  shows "2 powi expo x \<le> x \<and> x < 2 powi (expo x + 1)"
proof (cases "1 \<le> x")
  case True
  define n where "n = \<lfloor>x\<rfloor>"
  have n: "0 < n" using True by (simp add: n_def)
  have e: "expo x = bitlen n - 1" using True by (simp add: expo_def n_def)
  have b1: "1 \<le> bitlen n" using n bitlen_eq_zero_iff [of n] bitlen_nonneg [of n] by linarith
  from bitlen_bounds [OF n] have lo: "2 ^ nat (bitlen n - 1) \<le> n" and hi: "n < 2 ^ nat (bitlen n)"
    by simp_all
  have "(2::rat) powi (bitlen n - 1) = 2 ^ nat (bitlen n - 1)"
    using b1 by (simp add: power_int_def)
  also have "\<dots> = of_int (2 ^ nat (bitlen n - 1))" by simp
  also have "\<dots> \<le> of_int n" using lo by (simp only: of_int_le_iff)
  also have "\<dots> \<le> x" by (simp add: n_def)
  finally have L: "2 powi expo x \<le> x" by (simp add: e)
  have "n + 1 \<le> 2 ^ nat (bitlen n)" using hi by simp
  then have "(of_int (n + 1) :: rat) \<le> of_int (2 ^ nat (bitlen n))"
    by (simp only: of_int_le_iff)
  moreover have "x < of_int (n + 1)" unfolding n_def by linarith
  ultimately have "x < of_int (2 ^ nat (bitlen n))" by linarith
  also have "\<dots> = 2 powi (bitlen n)" using b1 by (simp add: power_int_def)
  finally have "x < 2 powi (expo x + 1)" by (simp add: e)
  with L show ?thesis by simp
next
  case False
  define m where "m = \<lceil>1 / x\<rceil> - 1"
  have y: "1 < 1 / x" using False assms by simp
  have m: "0 < m" unfolding m_def using y by linarith
  have e: "expo x = - bitlen m" using False by (simp add: expo_def m_def)
  have b1: "1 \<le> bitlen m" using m bitlen_eq_zero_iff [of m] bitlen_nonneg [of m] by linarith
  from bitlen_bounds [OF m] have lo: "2 ^ nat (bitlen m - 1) \<le> m" and hi: "m < 2 ^ nat (bitlen m)"
    by simp_all
  have my: "of_int m < 1 / x" unfolding m_def by linarith
  have ym: "1 / x \<le> of_int (m + 1)" unfolding m_def by simp
  have "m + 1 \<le> 2 ^ nat (bitlen m)" using hi by simp
  then have "(of_int (m + 1) :: rat) \<le> of_int (2 ^ nat (bitlen m))"
    by (simp only: of_int_le_iff)
  with ym have "1 / x \<le> 2 ^ nat (bitlen m)" by simp
  then have "1 / 2 ^ nat (bitlen m) \<le> x"
    using assms by (simp add: field_simps)
  moreover have "(2::rat) powi (- bitlen m) = 1 / 2 ^ nat (bitlen m)"
    using b1 by (simp add: power_int_def field_simps)
  ultimately have L: "2 powi expo x \<le> x" by (simp add: e)
  have "(of_int (2 ^ nat (bitlen m - 1)) :: rat) \<le> of_int m"
    using lo by (simp only: of_int_le_iff)
  then have "(2::rat) ^ nat (bitlen m - 1) \<le> of_int m" by simp
  with my have "2 ^ nat (bitlen m - 1) < 1 / x" by linarith
  then have "x < 1 / 2 ^ nat (bitlen m - 1)"
    using assms by (simp add: field_simps)
  moreover have "(2::rat) powi (- bitlen m + 1) = 1 / 2 ^ nat (bitlen m - 1)"
  proof (cases "bitlen m = 1")
    case True then show ?thesis by simp
  next
    case False
    then have "- bitlen m + 1 < 0" using b1 by simp
    moreover have "nat (- (- bitlen m + 1)) = nat (bitlen m - 1)" by simp
    ultimately show ?thesis by (simp add: power_int_def field_simps)
  qed
  ultimately have "x < 2 powi (expo x + 1)" by (simp add: e)
  with L show ?thesis by simp
qed

lemma powi_exp_less:
  fixes x :: rat
  assumes "2 powi a \<le> x" and "x < 2 powi b"
  shows "a < b"
proof (rule ccontr)
  assume "\<not> a < b"
  then have "b \<le> a" by simp
  then have "(2::rat) powi b \<le> 2 powi a" by (rule power_int_increasing) simp
  with assms show False by linarith
qed

lemma expo_unique:
  assumes "2 powi e \<le> x" and "x < 2 powi (e + 1)"
  shows "expo x = e"
proof -
  have "(0::rat) < 2 powi e" by simp
  with assms have pos: "0 < x" by linarith
  from expo_bounds [OF pos] have lo: "2 powi expo x \<le> x" and hi: "x < 2 powi (expo x + 1)"
    by simp_all
  from powi_exp_less [OF assms(1) hi] powi_exp_less [OF lo assms(2)]
  show ?thesis by simp
qed

lemma ulp_below:
  assumes "x \<noteq> 0" and "\<bar>x\<bar> < 2 ^ n" and "n \<le> 52"
  shows "\<exists>k. 53 \<le> k + n \<and> ulp x = 1 / 2 ^ k"
proof -
  have pos: "0 < \<bar>x\<bar>" using assms(1) by simp
  from expo_bounds [OF pos] have lo: "2 powi expo \<bar>x\<bar> \<le> \<bar>x\<bar>" by simp
  have "\<bar>x\<bar> < 2 powi (int n)" using assms(2) by simp
  from powi_exp_less [OF lo this] have e: "expo \<bar>x\<bar> < int n" .
  define t where "t = max (expo \<bar>x\<bar> - 52) (- 1074)"
  have t: "t \<le> int n - 53" using e assms(3) by (simp add: t_def)
  then have t0: "t \<le> 0" using assms(3) by simp
  have "ulp x = 2 powi t" by (simp add: ulp_def t_def)
  also have "\<dots> = 2 powi (- int (nat (- t)))" using t0 by simp
  also have "\<dots> = 1 / 2 ^ nat (- t)" by (simp only: power_int_minus_divide power_int_of_nat)
  finally have "ulp x = 1 / 2 ^ nat (- t)" .
  moreover have "53 \<le> nat (- t) + n" using t by linarith
  ultimately show ?thesis by blast
qed

lemma roundTiesToEven_bounds:
  "\<lfloor>q\<rfloor> \<le> roundTiesToEven q \<and> roundTiesToEven q \<le> \<lceil>q\<rceil>"
proof -
  have "roundTiesToEven q = \<lfloor>q\<rfloor> \<or> (roundTiesToEven q = \<lfloor>q\<rfloor> + 1 \<and> q \<noteq> of_int \<lfloor>q\<rfloor>)"
    by (auto simp add: roundTiesToEven_def Let_def)
  moreover have "q \<noteq> of_int \<lfloor>q\<rfloor> \<Longrightarrow> \<lceil>q\<rceil> = \<lfloor>q\<rfloor> + 1"
    by (metis ceiling_altdef of_int_floor_cancel)
  moreover have "\<lfloor>q\<rfloor> \<le> \<lceil>q\<rceil>" by (rule floor_le_ceiling)
  ultimately show ?thesis by auto
qed

lemma roundTiesToEven_error:
  "\<bar>of_int (roundTiesToEven q) - q\<bar> \<le> 1 / 2"
proof -
  have "of_int \<lfloor>q\<rfloor> \<le> q" and "q < of_int \<lfloor>q\<rfloor> + 1" by linarith+
  then show ?thesis
    by (auto simp add: roundTiesToEven_def Let_def abs_le_iff)
qed

lemma roundTiesToEven_of_int:
  "roundTiesToEven (of_int n) = n"
  by (simp add: roundTiesToEven_def)

lemma round_error:
  assumes "ulp x = 1 / 2 ^ k"
  shows "\<bar>roundToDouble x - x\<bar> \<le> 1 / 2 ^ (k + 1)"
proof (cases "x = 0")
  case True
  then show ?thesis by (simp add: roundToDouble_def)
next
  case False
  define q where "q = x * 2 ^ k"
  have r: "roundToDouble x = of_int (roundTiesToEven q) / 2 ^ k"
    using False by (simp add: roundToDouble_def assms q_def)
  have "roundToDouble x - x = (of_int (roundTiesToEven q) - q) / 2 ^ k"
    unfolding r by (simp add: q_def diff_divide_distrib)
  then have "\<bar>roundToDouble x - x\<bar> = \<bar>of_int (roundTiesToEven q) - q\<bar> / 2 ^ k"
    by (simp add: abs_divide)
  also have "\<dots> \<le> (1 / 2) / 2 ^ k"
    by (rule divide_right_mono [OF roundTiesToEven_error]) simp
  finally show ?thesis by simp
qed

lemma round_grid_lower:
  assumes "ulp x = 1 / 2 ^ k" and "j \<le> k" and "of_int m / 2 ^ j \<le> x"
  shows "of_int m / 2 ^ j \<le> roundToDouble x"
proof (cases "x = 0")
  case True
  then show ?thesis using assms(3) by (simp add: roundToDouble_def)
next
  case False
  define q where "q = x * 2 ^ k"
  define M where "M = m * 2 ^ (k - j)"
  have r: "roundToDouble x = of_int (roundTiesToEven q) / 2 ^ k"
    using False by (simp add: roundToDouble_def assms(1) q_def)
  have kj: "(2::rat) ^ k = 2 ^ (k - j) * 2 ^ j"
    using assms(2) by (simp flip: power_add)
  have c: "of_int m / 2 ^ j = (of_int M :: rat) / 2 ^ k"
    by (simp add: M_def kj)
  have "of_int M / 2 ^ k \<le> x" using assms(3) c by simp
  then have "of_int M \<le> q" by (simp add: q_def field_simps)
  then have "M \<le> \<lfloor>q\<rfloor>" by (simp add: le_floor_iff)
  with roundTiesToEven_bounds [of q] have "M \<le> roundTiesToEven q" by linarith
  then have "(of_int M :: rat) \<le> of_int (roundTiesToEven q)" by (simp only: of_int_le_iff)
  then have "(of_int M :: rat) / 2 ^ k \<le> of_int (roundTiesToEven q) / 2 ^ k"
    by (simp add: divide_right_mono)
  then show ?thesis by (simp only: c r)
qed

lemma round_grid_upper:
  assumes "ulp x = 1 / 2 ^ k" and "j \<le> k" and "x \<le> of_int m / 2 ^ j"
  shows "roundToDouble x \<le> of_int m / 2 ^ j"
proof (cases "x = 0")
  case True
  then show ?thesis using assms(3) by (simp add: roundToDouble_def)
next
  case False
  define q where "q = x * 2 ^ k"
  define M where "M = m * 2 ^ (k - j)"
  have r: "roundToDouble x = of_int (roundTiesToEven q) / 2 ^ k"
    using False by (simp add: roundToDouble_def assms(1) q_def)
  have kj: "(2::rat) ^ k = 2 ^ (k - j) * 2 ^ j"
    using assms(2) by (simp flip: power_add)
  have c: "of_int m / 2 ^ j = (of_int M :: rat) / 2 ^ k"
    by (simp add: M_def kj)
  have "x \<le> of_int M / 2 ^ k" using assms(3) c by simp
  then have "q \<le> of_int M" by (simp add: q_def field_simps)
  then have "\<lceil>q\<rceil> \<le> M" by (simp add: ceiling_le_iff)
  with roundTiesToEven_bounds [of q] have "roundTiesToEven q \<le> M" by linarith
  then have "(of_int (roundTiesToEven q) :: rat) \<le> of_int M" by (simp only: of_int_le_iff)
  then have "(of_int (roundTiesToEven q) :: rat) / 2 ^ k \<le> of_int M / 2 ^ k"
    by (simp add: divide_right_mono)
  then show ?thesis by (simp only: c r)
qed


text \<open>
  Below 128 the doubles are at most \<open>2^(-46)\<close> apart: rounding moves a number by at
  most \<open>2^(-47)\<close> and never across a multiple of \<open>2^(-46)\<close>, an integer in
  particular.
\<close>

lemma ulp_small:
  assumes "x \<noteq> 0" and "\<bar>x\<bar> < 128"
  shows "\<exists>k. 46 \<le> k \<and> ulp x = 1 / 2 ^ k"
proof -
  have "\<bar>x\<bar> < 2 ^ 7" using assms(2) by simp
  from ulp_below [OF assms(1) this] obtain k where "53 \<le> k + 7" and "ulp x = 1 / 2 ^ k"
    by auto
  then show ?thesis by (intro exI [of _ k]) simp
qed

lemma small_error:
  assumes "\<bar>x\<bar> < 128"
  shows "\<bar>roundToDouble x - x\<bar> \<le> 1 / 2 ^ 47"
proof (cases "x = 0")
  case True
  then show ?thesis by (simp add: roundToDouble_def)
next
  case False
  from ulp_small [OF False assms] obtain k where k: "46 \<le> k" and u: "ulp x = 1 / 2 ^ k"
    by auto
  have "(2::rat) ^ 47 \<le> 2 ^ (k + 1)" using k by (intro power_increasing) simp_all
  then have "1 / (2::rat) ^ (k + 1) \<le> 1 / 2 ^ 47"
    by (intro divide_left_mono) simp_all
  with round_error [OF u] show ?thesis by linarith
qed

lemma small_lower:
  assumes "\<bar>x\<bar> < 128" and "of_int m / 2 ^ 46 \<le> x"
  shows "of_int m / 2 ^ 46 \<le> roundToDouble x"
proof (cases "x = 0")
  case True
  then show ?thesis using assms(2) by (simp add: roundToDouble_def)
next
  case False
  from ulp_small [OF False assms(1)] obtain k where k: "46 \<le> k" and u: "ulp x = 1 / 2 ^ k"
    by auto
  from round_grid_lower [OF u k assms(2)] show ?thesis .
qed

lemma small_upper:
  assumes "\<bar>x\<bar> < 128" and "x \<le> of_int m / 2 ^ 46"
  shows "roundToDouble x \<le> of_int m / 2 ^ 46"
proof (cases "x = 0")
  case True
  then show ?thesis using assms(2) by (simp add: roundToDouble_def)
next
  case False
  from ulp_small [OF False assms(1)] obtain k where k: "46 \<le> k" and u: "ulp x = 1 / 2 ^ k"
    by auto
  from round_grid_upper [OF u k assms(2)] show ?thesis .
qed

lemma small_lower_int:
  assumes "\<bar>x\<bar> < 128" and "of_int j \<le> x"
  shows "of_int j \<le> roundToDouble x"
  using small_lower [OF assms(1), of "j * 2 ^ 46"] assms(2) by simp

lemma small_upper_int:
  assumes "\<bar>x\<bar> < 128" and "x \<le> of_int j"
  shows "roundToDouble x \<le> of_int j"
  using small_upper [OF assms(1), of "j * 2 ^ 46"] assms(2) by simp



lemma double_below_one:
  assumes "isDouble r" and "0 \<le> r" and "r < 1"
  shows "r \<le> 1 - 1 / 2 ^ 53"
proof (rule ccontr)
  assume "\<not> r \<le> 1 - 1 / 2 ^ 53"
  then have big: "1 - 1 / 2 ^ 53 < r" by simp
  then have half: "1 / 2 \<le> r" by simp
  have "expo r = - 1"
    by (rule expo_unique) (use half assms(3) in simp_all)
  then have u: "ulp r = 1 / 2 ^ 53"
    using assms(2) by (simp add: ulp_def power_int_minus_divide)
  define N where "N = roundTiesToEven (r * 2 ^ 53)"
  have "r \<noteq> 0" using half by simp
  then have "roundToDouble r = of_int N / 2 ^ 53"
    by (simp add: roundToDouble_def u N_def)
  with assms(1) have r: "r = of_int N / 2 ^ 53" by (simp add: isDouble_def)
  have "of_int N < (2::rat) ^ 53" using assms(3) by (subst (asm) r) simp
  then have "(of_int N :: rat) < of_int (2 ^ 53)" by simp
  then have "N < 2 ^ 53" by (simp only: of_int_less_iff)
  moreover have "(2::rat) ^ 53 - 1 < of_int N" using big by (subst (asm) r) (simp add: field_simps)
  then have "(of_int (2 ^ 53 - 1) :: rat) < of_int N" by simp
  then have "2 ^ 53 - 1 < N" by (simp only: of_int_less_iff)
  ultimately show False by simp
qed





lemma small_error64:
  assumes "\<bar>x\<bar> < 64"
  shows "\<bar>roundToDouble x - x\<bar> \<le> 1 / 2 ^ 48"
proof (cases "x = 0")
  case True
  then show ?thesis by (simp add: roundToDouble_def)
next
  case False
  have "\<bar>x\<bar> < 2 ^ 6" using assms by simp
  from ulp_below [OF False this] obtain k where k: "53 \<le> k + 6" and u: "ulp x = 1 / 2 ^ k"
    by auto
  have "(2::rat) ^ 48 \<le> 2 ^ (k + 1)" using k by (intro power_increasing) simp_all
  then have "1 / (2::rat) ^ (k + 1) \<le> 1 / 2 ^ 48"
    by (intro divide_left_mono) simp_all
  with round_error [OF u] show ?thesis by linarith
qed

lemma listing_range:
  assumes "isDouble r" and "0 \<le> r" and "r < 1"
  shows "- 50 \<le> \<lfloor>doubleSub (doubleMul r 100) 50\<rfloor> \<and> \<lfloor>doubleSub (doubleMul r 100) 50\<rfloor> \<le> 49"
proof -
  define x where "x = r * 100"
  define p where "p = roundToDouble x"
  define y where "y = p - 50"
  have top: "x \<le> 100 - 100 / 2 ^ 53"
    using double_below_one [OF assms] by (simp add: x_def)
  have x0: "0 \<le> x" using assms(2) by (simp add: x_def)
  have small: "\<bar>x\<bar> < 128" using top x0 by simp
  have "of_int 0 \<le> roundToDouble x"
    by (rule small_lower_int [OF small]) (use x0 in simp)
  then have p0: "0 \<le> p" by (simp add: p_def)
  have c1: "(1::rat) / 2 ^ 47 = 64 / 2 ^ 53" and c2: "(1::rat) / 2 ^ 48 = 32 / 2 ^ 53"
    by simp_all
  have p1: "p \<le> 100 - 36 / 2 ^ 53"
    using small_error [OF small] top unfolding p_def c1 by linarith
  have y_lo: "- 50 \<le> y" and y_hi: "y \<le> 50 - 36 / 2 ^ 53"
    using p0 p1 by (simp_all add: y_def)
  have y64: "\<bar>y\<bar> < 64" using y_lo y_hi by simp
  then have y128: "\<bar>y\<bar> < 128" by simp
  have "of_int (- 50) \<le> roundToDouble y"
    by (rule small_lower_int [OF y128]) (use y_lo in simp)
  then have lo: "- 50 \<le> \<lfloor>roundToDouble y\<rfloor>" by (simp add: le_floor_iff)
  have "roundToDouble y \<le> y + 32 / 2 ^ 53"
    using small_error64 [OF y64] unfolding c2 by linarith
  with y_hi have "roundToDouble y < 50" by simp
  then have "\<lfloor>roundToDouble y\<rfloor> < 50" by (simp add: floor_less_iff)
  with lo show ?thesis by (simp add: doubleSub_def doubleMul_def x_def p_def y_def)
qed

section \<open>The stress test: results\<close>



text \<open>
  The rounding is visible at the draw 1114752383012499 / 2^50: 101 times the draw is
  below 100, the double product is 100, and the position stored is 50. The largest
  double below 1 stores 50 as well.
\<close>

lemma stressTest_boundary_draw:
  "(1114752383012499 / 2 ^ 50 :: rat) * 101 < 100
   \<and> stressTest (1114752383012499 / 2 ^ 50) 0 (1 / 2) (1 - 1 / 2 ^ 53) zeroState
       = \<lparr>valuePosition = 50, directionPosition = - 50,
          exchangePosition = 0, operatePosition = 50\<rparr>"
proof -
  have "\<lfloor>doubleMul (1114752383012499 / 2 ^ 50) 101\<rfloor> = 100"
    and "\<lfloor>doubleMul 0 101\<rfloor> = 0"
    and "\<lfloor>doubleMul (1 / 2) 101\<rfloor> = 50"
    and "\<lfloor>doubleMul (1 - 1 / 2 ^ 53) 101\<rfloor> = 100"
    by code_simp+
  then show ?thesis by (simp add: stressTest_def zeroState_def)
qed

text \<open>
  The handler of the documentation's listing stays between -50 and 49: it never
  stores 50.
\<close>

lemma stressTestListing_below_50:
  assumes "isDouble r1 \<and> 0 \<le> r1 \<and> r1 < 1" and "isDouble r2 \<and> 0 \<le> r2 \<and> r2 < 1"
    and "isDouble r3 \<and> 0 \<le> r3 \<and> r3 < 1" and "isDouble r4 \<and> 0 \<le> r4 \<and> r4 < 1"
  shows "inRange (stressTestListing r1 r2 r3 r4 s)
     \<and> valuePosition (stressTestListing r1 r2 r3 r4 s) \<le> 49
     \<and> directionPosition (stressTestListing r1 r2 r3 r4 s) \<le> 49
     \<and> exchangePosition (stressTestListing r1 r2 r3 r4 s) \<le> 49
     \<and> operatePosition (stressTestListing r1 r2 r3 r4 s) \<le> 49"
  using listing_range [of r1] listing_range [of r2] listing_range [of r3]
    listing_range [of r4] assms
  by (simp add: inRange_def stressTestListing_def)

lemma idealForm_zero:
  "idealForm s = zeroState \<and> calculateHealth (idealForm s) = 100"
  by (simp add: idealForm_def zeroState_def calculateHealth_def)

end
